theory Spec2Isabelle
  imports Complex_Main
begin

section \<open>Values, rows and schemas (parser/parser.py, engine/storage.py)\<close>

text \<open>
  A cell of a row is a Python scalar: \<^verbatim>\<open>None\<close>, a \<^verbatim>\<open>bool\<close>, an \<^verbatim>\<open>int\<close> (unbounded), a
  \<^verbatim>\<open>float\<close> or a \<^verbatim>\<open>str\<close>. The engine never does arithmetic on a cell, it only tests
  \<^verbatim>\<open>isinstance\<close>, \<^verbatim>\<open>==\<close> and the order comparisons, which Python evaluates exactly, also
  between an int and a float. A finite float is therefore carried by the rational number
  it denotes (NaN and the infinities are outside the model). A string is its list of
  UTF-8 bytes; byte-wise lexicographic order is Python's code point order.
\<close>

datatype val = VNone | VBool bool | VInt int | VFloat rat | VStr string

datatype message =
    CannotBeNull string
  | InvalidType string
  | DuplicateValue string
  | TableExists string
  | NoSuchTable string
  | IndexExists string
  | NoSuchIndex string
  | NotAnEnumValue string

datatype py_error = ValueError message | TypeError | IndexError | AttributeError

text \<open>\<^verbatim>\<open>bool\<close> is a subclass of \<^verbatim>\<open>int\<close>: \<^verbatim>\<open>True == 1\<close>, \<^verbatim>\<open>True < 2\<close>, \<^verbatim>\<open>1 == 1.0\<close>.\<close>

fun num_of :: "val \<Rightarrow> rat option" where
  "num_of (VBool b) = Some (if b then 1 else 0)"
| "num_of (VInt i) = Some (of_int i)"
| "num_of (VFloat q) = Some q"
| "num_of VNone = None"
| "num_of (VStr s) = None"

fun py_eq :: "val \<Rightarrow> val \<Rightarrow> bool" where
  "py_eq VNone VNone = True"
| "py_eq (VStr s) (VStr t) = (s = t)"
| "py_eq a b = (case (num_of a, num_of b) of (Some x, Some y) \<Rightarrow> x = y | _ \<Rightarrow> False)"

fun str_lt :: "string \<Rightarrow> string \<Rightarrow> bool" where
  "str_lt [] [] = False"
| "str_lt [] (y # ys) = True"
| "str_lt (x # xs) [] = False"
| "str_lt (x # xs) (y # ys) =
     (if (of_char x :: nat) < of_char y then True
      else if (of_char y :: nat) < of_char x then False
      else str_lt xs ys)"

text \<open>\<^verbatim>\<open>a < b\<close>: defined between two numbers and between two strings, TypeError otherwise.\<close>

fun py_lt :: "val \<Rightarrow> val \<Rightarrow> py_error + bool" where
  "py_lt (VStr s) (VStr t) = Inr (str_lt s t)"
| "py_lt a b = (case (num_of a, num_of b) of (Some x, Some y) \<Rightarrow> Inr (x < y) | _ \<Rightarrow> Inl TypeError)"

definition py_gt :: "val \<Rightarrow> val \<Rightarrow> py_error + bool" where
  "py_gt a b = py_lt b a"

fun py_le :: "val \<Rightarrow> val \<Rightarrow> py_error + bool" where
  "py_le (VStr s) (VStr t) = Inr (\<not> str_lt t s)"
| "py_le a b = (case (num_of a, num_of b) of (Some x, Some y) \<Rightarrow> Inr (x \<le> y) | _ \<Rightarrow> Inl TypeError)"

definition py_ge :: "val \<Rightarrow> val \<Rightarrow> py_error + bool" where
  "py_ge a b = py_le b a"

text \<open>
  A \<^verbatim>\<open>dict\<close> keeps its keys in insertion order: an association list. Assigning to a key
  that is present replaces its value in place, assigning to a new key appends it.
\<close>

type_synonym row = "(string \<times> val) list"

fun dict_set :: "(string \<times> 'v) list \<Rightarrow> string \<Rightarrow> 'v \<Rightarrow> (string \<times> 'v) list" where
  "dict_set [] k v = [(k, v)]"
| "dict_set ((k', v') # d) k v = (if k' = k then (k, v) # d else (k', v') # dict_set d k v)"

definition dict_has :: "(string \<times> 'v) list \<Rightarrow> string \<Rightarrow> bool" where
  "dict_has d k = (map_of d k \<noteq> None)"

text \<open>\<^verbatim>\<open>Row.get\<close> is \<^verbatim>\<open>dict.get\<close>: \<^verbatim>\<open>None\<close> for a missing column.\<close>

definition Row_get :: "row \<Rightarrow> string \<Rightarrow> val" where
  "Row_get r c = (case map_of r c of None \<Rightarrow> VNone | Some v \<Rightarrow> v)"

datatype DataType = INT_type | TEXT_type | FLOAT_type | BOOL_type

datatype ConstraintType = PRIMARY_KEY | UNIQUE | NOT_NULL

record Column =
  name :: string
  data_type :: DataType
  constraints :: "ConstraintType list"

text \<open>
  The object a \<^verbatim>\<open>Table\<close> holds as its schema is a \<^verbatim>\<open>TableSchema\<close> of storage.py when the
  table is loaded from disk or made from one. \<^verbatim>\<open>Database._execute_create_table\<close> passes
  the parser's \<^verbatim>\<open>Table\<close> dataclass instead, and \<^verbatim>\<open>create_table\<close> stores it as it comes: that
  object has the attributes \<^verbatim>\<open>name\<close> and \<^verbatim>\<open>columns\<close>, gets \<^verbatim>\<open>primary_key\<close> only when
  \<^verbatim>\<open>create_table\<close> finds a PRIMARY KEY column, and has none of the methods. The record
  carries the class of the object; for a parser \<^verbatim>\<open>Table\<close>, \<open>primary_key = None\<close> means that
  the attribute does not exist.
\<close>

datatype schema_class = StorageTableSchema | ParserTable

record TableSchema =
  cls :: schema_class
  name :: string
  columns :: "Column list"
  primary_key :: "string option"

fun get_column :: "Column list \<Rightarrow> string \<Rightarrow> Column option" where
  "get_column [] n = None"
| "get_column (col # cols) n = (if Column.name col = n then Some col else get_column cols n)"

fun validate_type :: "val \<Rightarrow> DataType \<Rightarrow> bool" where
  "validate_type v INT_type = (case v of VInt _ \<Rightarrow> True | VBool _ \<Rightarrow> True | _ \<Rightarrow> False)"
| "validate_type v FLOAT_type = (case v of VInt _ \<Rightarrow> True | VBool _ \<Rightarrow> True | VFloat _ \<Rightarrow> True | _ \<Rightarrow> False)"
| "validate_type v TEXT_type = (case v of VStr _ \<Rightarrow> True | _ \<Rightarrow> False)"
| "validate_type v BOOL_type = (case v of VBool _ \<Rightarrow> True | _ \<Rightarrow> False)"

text \<open>The two loops of \<^verbatim>\<open>TableSchema.validate_row\<close>; each stops at its first raise.\<close>

fun check_required :: "Column list \<Rightarrow> row \<Rightarrow> py_error option" where
  "check_required [] r = None"
| "check_required (col # cols) r =
     (if NOT_NULL \<in> set (constraints col) \<and> \<not> dict_has r (Column.name col)
      then Some (ValueError (CannotBeNull (Column.name col)))
      else check_required cols r)"

fun check_types :: "Column list \<Rightarrow> row \<Rightarrow> py_error option" where
  "check_types cols [] = None"
| "check_types cols ((col_name, v) # items) =
     (case get_column cols col_name of
        None \<Rightarrow> check_types cols items
      | Some col \<Rightarrow>
          if \<not> validate_type v (data_type col)
          then Some (ValueError (InvalidType col_name))
          else check_types cols items)"

text \<open>Calling \<^verbatim>\<open>validate_row\<close> on a parser \<^verbatim>\<open>Table\<close> raises AttributeError: no such method.\<close>

definition validate_row :: "TableSchema \<Rightarrow> row \<Rightarrow> py_error + bool" where
  "validate_row s r =
     (if cls s = ParserTable then Inl AttributeError
      else case check_required (columns s) r of
          Some e \<Rightarrow> Inl e
        | None \<Rightarrow> (case check_types (columns s) r of Some e \<Rightarrow> Inl e | None \<Rightarrow> Inr True))"

section \<open>Table (engine/storage.py)\<close>

record Table =
  schema :: TableSchema
  rows :: "row list"
  next_row_id :: int

definition Table_init :: "TableSchema \<Rightarrow> Table" where
  "Table_init s = \<lparr>schema = s, rows = [], next_row_id = 1\<rparr>"

text \<open>
  \<^verbatim>\<open>_check_unique_constraints\<close>: for each UNIQUE or PRIMARY_KEY column present in the new
  row, a linear scan of the stored rows with \<^verbatim>\<open>==\<close>.
\<close>

fun scan_existing :: "string \<Rightarrow> val \<Rightarrow> row list \<Rightarrow> bool" where
  "scan_existing c v [] = False"
| "scan_existing c v (existing_row # rs) =
     (if dict_has existing_row c \<and> py_eq (Row_get existing_row c) v then True
      else scan_existing c v rs)"

fun check_unique_constraints :: "Column list \<Rightarrow> row list \<Rightarrow> row \<Rightarrow> py_error option" where
  "check_unique_constraints [] rs new_row = None"
| "check_unique_constraints (col # cols) rs new_row =
     (if (UNIQUE \<in> set (constraints col) \<or> PRIMARY_KEY \<in> set (constraints col))
         \<and> dict_has new_row (Column.name col)
         \<and> scan_existing (Column.name col) (Row_get new_row (Column.name col)) rs
      then Some (ValueError (DuplicateValue (Column.name col)))
      else check_unique_constraints cols rs new_row)"

text \<open>
  \<^verbatim>\<open>Table.insert\<close> mutates the table and the caller's row object, and either returns
  \<^verbatim>\<open>row.data['row_id']\<close> or raises. The model returns the table and the row as they are
  left, together with the outcome.
\<close>

definition assign_row_id :: "Table \<Rightarrow> row \<Rightarrow> Table \<times> row" where
  "assign_row_id t r =
     (if \<not> dict_has r ''row_id''
      then (t\<lparr>next_row_id := next_row_id t + 1\<rparr>, dict_set r ''row_id'' (VInt (next_row_id t)))
      else (t, r))"

definition Table_insert :: "Table \<Rightarrow> row \<Rightarrow> Table \<times> row \<times> (py_error + val)" where
  "Table_insert t r =
     (case validate_row (schema t) r of
        Inl e \<Rightarrow> (t, r, Inl e)
      | Inr _ \<Rightarrow>
          (case assign_row_id t r of
             (t1, r1) \<Rightarrow>
               (case check_unique_constraints (columns (schema t1)) (rows t1) r1 of
                  Some e \<Rightarrow> (t1, r1, Inl e)
                | None \<Rightarrow> (t1\<lparr>rows := rows t1 @ [r1]\<rparr>, r1, Inr (Row_get r1 ''row_id'')))))"

text \<open>
  A \<^verbatim>\<open>Condition\<close> compares two operands; an operand that is a \<^verbatim>\<open>str\<close> is a column
  reference, any other operand is a \<^verbatim>\<open>Value\<close> whose payload is taken.
\<close>

datatype operand = ColumnRef string | Literal val

record Condition =
  left :: operand
  operator :: string
  right :: operand

fun operand_value :: "row \<Rightarrow> operand \<Rightarrow> val" where
  "operand_value r (ColumnRef c) = Row_get r c"
| "operand_value r (Literal v) = v"

text \<open>\<^verbatim>\<open>Table._matches_condition\<close>: an operator outside the six falls through to True.\<close>

definition Table_matches_condition :: "row \<Rightarrow> Condition \<Rightarrow> py_error + bool" where
  "Table_matches_condition r c =
     (let left_val = operand_value r (left c); right_val = operand_value r (right c)
      in if operator c = ''='' then Inr (py_eq left_val right_val)
         else if operator c = ''!='' then Inr (\<not> py_eq left_val right_val)
         else if operator c = ''>'' then py_gt left_val right_val
         else if operator c = ''<'' then py_lt left_val right_val
         else if operator c = ''>='' then py_ge left_val right_val
         else if operator c = ''<='' then py_le left_val right_val
         else Inr True)"

text \<open>The dictionary comprehension \<^verbatim>\<open>{col: row.data[col] for col in columns if col in row.data}\<close>.\<close>

definition project_row :: "row \<Rightarrow> string list \<Rightarrow> row" where
  "project_row r cols =
     fold (\<lambda>col d. if dict_has r col then dict_set d col (Row_get r col) else d) cols []"

definition Table_select :: "Table \<Rightarrow> string list option \<Rightarrow> row list" where
  "Table_select t cols =
     (case cols of
        None \<Rightarrow> rows t
      | Some cs \<Rightarrow> if ''*'' \<in> set cs then rows t else map (\<lambda>r. project_row r cs) (rows t))"

definition apply_assignments :: "row \<Rightarrow> (string \<times> val) list \<Rightarrow> row" where
  "apply_assignments r assignments = fold (\<lambda>(col, v) r'. dict_set r' col v) assignments r"

text \<open>
  The loop of \<^verbatim>\<open>Table.update\<close> over the stored rows, which it mutates in place: the
  rows come back as the loop leaves them, also when it raises.
\<close>

fun update_rows ::
  "TableSchema \<Rightarrow> (string \<times> val) list \<Rightarrow> Condition option \<Rightarrow> row list \<Rightarrow> int
     \<Rightarrow> row list \<times> (py_error + int)" where
  "update_rows s assignments w [] count = ([], Inr count)"
| "update_rows s assignments w (r # rs) count =
     (case (case w of None \<Rightarrow> Inr True | Some c \<Rightarrow> Table_matches_condition r c) of
        Inl e \<Rightarrow> (r # rs, Inl e)
      | Inr False \<Rightarrow>
          (case update_rows s assignments w rs count of (rs', res) \<Rightarrow> (r # rs', res))
      | Inr True \<Rightarrow>
          (let r' = apply_assignments r assignments
           in case validate_row s r' of
                Inl e \<Rightarrow> (r' # rs, Inl e)
              | Inr _ \<Rightarrow>
                  (case update_rows s assignments w rs (count + 1) of
                     (rs', res) \<Rightarrow> (r' # rs', res))))"

definition Table_update ::
  "Table \<Rightarrow> (string \<times> val) list \<Rightarrow> Condition option \<Rightarrow> Table \<times> (py_error + int)" where
  "Table_update t assignments w =
     (case update_rows (schema t) assignments w (rows t) 0 of
        (rs', res) \<Rightarrow> (t\<lparr>rows := rs'\<rparr>, res))"

text \<open>The list comprehension of \<^verbatim>\<open>Table.delete\<close>; a raise leaves the rows as they were.\<close>

fun keep_unmatched :: "Condition \<Rightarrow> row list \<Rightarrow> py_error + row list" where
  "keep_unmatched c [] = Inr []"
| "keep_unmatched c (r # rs) =
     (case Table_matches_condition r c of
        Inl e \<Rightarrow> Inl e
      | Inr m \<Rightarrow>
          (case keep_unmatched c rs of
             Inl e \<Rightarrow> Inl e
           | Inr rs' \<Rightarrow> Inr (if m then rs' else r # rs')))"

definition Table_delete :: "Table \<Rightarrow> Condition option \<Rightarrow> Table \<times> (py_error + int)" where
  "Table_delete t w =
     (case w of
        None \<Rightarrow> (t\<lparr>rows := []\<rparr>, Inr (int (length (rows t))))
      | Some c \<Rightarrow>
          (case keep_unmatched c (rows t) of
             Inl e \<Rightarrow> (t, Inl e)
           | Inr rs' \<Rightarrow> (t\<lparr>rows := rs'\<rparr>, Inr (int (length (rows t)) - int (length rs')))))"

section \<open>BTreeIndex (engine/index.py)\<close>

text \<open>
  A node's \<^verbatim>\<open>children\<close> list holds child nodes in an internal node and, in a leaf, one
  entry per key: the list of values stored under the key, or \<^verbatim>\<open>None\<close> as a placeholder.
  \<^verbatim>\<open>_delete\<close> also stores \<^verbatim>\<open>None\<close> into an internal node. An entry is therefore one of the
  three.
\<close>

datatype node = BTreeNode (keys: "val list") (children: "child list") (is_leaf: bool)
  and child = CNone | CBucket "val list" | CNode node

record BTreeIndex =
  order :: int
  root :: node

definition BTreeIndex_init :: "int \<Rightarrow> BTreeIndex" where
  "BTreeIndex_init t = \<lparr>order = t, root = BTreeNode [] [] True\<rparr>"

datatype Order = LT | EQ | GT

definition compare_keys :: "val \<Rightarrow> val \<Rightarrow> py_error + Order" where
  "compare_keys key1 key2 =
     (case py_lt key1 key2 of
        Inl e \<Rightarrow> Inl e
      | Inr True \<Rightarrow> Inr LT
      | Inr False \<Rightarrow>
          (case py_gt key1 key2 of
             Inl e \<Rightarrow> Inl e
           | Inr True \<Rightarrow> Inr GT
           | Inr False \<Rightarrow> Inr EQ))"

text \<open>Python indexing and slicing: a negative index counts from the end.\<close>

definition py_index :: "'a list \<Rightarrow> int \<Rightarrow> py_error + 'a" where
  "py_index xs i =
     (if 0 \<le> i \<and> i < int (length xs) then Inr (xs ! nat i)
      else if i < 0 \<and> - int (length xs) \<le> i then Inr (xs ! nat (int (length xs) + i))
      else Inl IndexError)"

definition slice_from :: "'a list \<Rightarrow> int \<Rightarrow> 'a list" where
  "slice_from xs i = drop (nat (if i < 0 then int (length xs) + i else i)) xs"

definition slice_to :: "'a list \<Rightarrow> int \<Rightarrow> 'a list" where
  "slice_to xs i = take (nat (if i < 0 then int (length xs) + i else i)) xs"

definition list_insert :: "'a list \<Rightarrow> nat \<Rightarrow> 'a \<Rightarrow> 'a list" where
  "list_insert xs i x = take i xs @ x # drop i xs"

text \<open>
  \<^verbatim>\<open>_split_child\<close>. Every raise happens before the first assignment, so it either fails
  with the parent untouched or returns the parent as rebuilt. The children of a leaf are
  not divided: the old leaf keeps all its entries and the new leaf starts with none.
\<close>

definition split_child :: "int \<Rightarrow> node \<Rightarrow> nat \<Rightarrow> py_error + node" where
  "split_child t parent index =
     (if length (children parent) \<le> index then Inl IndexError
      else case children parent ! index of
          CNode c \<Rightarrow>
            (case py_index (keys c) (t - 1) of
               Inl e \<Rightarrow> Inl e
             | Inr median \<Rightarrow>
                 let new_child =
                       BTreeNode (slice_from (keys c) t)
                         (if is_leaf c then [] else slice_from (children c) t) (is_leaf c);
                     c' =
                       BTreeNode (slice_to (keys c) (t - 1))
                         (if is_leaf c then children c else slice_to (children c) t) (is_leaf c)
                 in Inr (BTreeNode (list_insert (keys parent) index median)
                           (list_insert ((children parent)[index := CNode c']) (index + 1)
                              (CNode new_child))
                           (is_leaf parent)))
        | _ \<Rightarrow> Inl AttributeError)"

text \<open>
  The shifting loop of \<^verbatim>\<open>_insert_non_full\<close> in a leaf, with \<open>j = i + 1\<close>. It returns the
  two lists as it leaves them, the final \<open>j\<close>, and the exception if it raised.
\<close>

fun leaf_shift ::
  "val \<Rightarrow> nat \<Rightarrow> val list \<Rightarrow> child list \<Rightarrow> val list \<times> child list \<times> nat \<times> py_error option" where
  "leaf_shift key 0 ks cs = (ks, cs, 0, None)"
| "leaf_shift key (Suc i) ks cs =
     (case compare_keys key (ks ! i) of
        Inl e \<Rightarrow> (ks, cs, Suc i, Some e)
      | Inr LT \<Rightarrow>
          (let ks' = ks[Suc i := ks ! i]
           in if Suc i < length cs then leaf_shift key i ks' (cs[Suc i := cs ! i])
              else (ks', cs, Suc i, Some IndexError))
      | Inr _ \<Rightarrow> (ks, cs, Suc i, None))"

definition insert_leaf :: "node \<Rightarrow> val \<Rightarrow> val \<Rightarrow> node \<times> py_error option" where
  "insert_leaf n key v =
     (case leaf_shift key (length (keys n)) (keys n @ [VNone]) (children n @ [CNone]) of
        (ks, cs, j, Some e) \<Rightarrow> (BTreeNode ks cs (is_leaf n), Some e)
      | (ks, cs, j, None) \<Rightarrow>
          let ks' = ks[j := key]
          in if length cs \<le> j then (BTreeNode ks' cs (is_leaf n), Some IndexError)
             else (BTreeNode ks'
                     (cs[j := (if cs ! j = CNone then CBucket [v] else cs ! j)]) (is_leaf n),
                   None))"

text \<open>The descent loop in an internal node, again with \<open>j = i + 1\<close>.\<close>

fun descend_index :: "val \<Rightarrow> val list \<Rightarrow> nat \<Rightarrow> py_error + nat" where
  "descend_index key ks 0 = Inr 0"
| "descend_index key ks (Suc i) =
     (case compare_keys key (ks ! i) of
        Inl e \<Rightarrow> Inl e
      | Inr LT \<Rightarrow> descend_index key ks i
      | Inr _ \<Rightarrow> Inr (Suc i))"

fun node_weight :: "node \<Rightarrow> nat" and child_weight :: "child \<Rightarrow> nat" where
  "node_weight (BTreeNode ks cs l) = Suc (sum_list (map child_weight cs))"
| "child_weight CNone = 0"
| "child_weight (CBucket b) = 0"
| "child_weight (CNode n) = node_weight n"

text \<open>
  The part of \<^verbatim>\<open>_insert_non_full\<close> in an internal node before the recursive call: the
  index of the child, the split of a full child, the choice between its halves. It
  returns the node as it stands and the index to descend to, or the exception.
\<close>

definition choose_child :: "int \<Rightarrow> node \<Rightarrow> val \<Rightarrow> node \<times> (py_error + nat)" where
  "choose_child t n key =
     (case descend_index key (keys n) (length (keys n)) of
        Inl e \<Rightarrow> (n, Inl e)
      | Inr i \<Rightarrow>
          if length (children n) \<le> i then (n, Inl IndexError)
          else case children n ! i of
              CNode c \<Rightarrow>
                if int (length (keys c)) = 2 * t - 1
                then (case split_child t n i of
                        Inl e \<Rightarrow> (n, Inl e)
                      | Inr n' \<Rightarrow>
                          (case compare_keys key (keys n' ! i) of
                             Inl e \<Rightarrow> (n', Inl e)
                           | Inr GT \<Rightarrow> (n', Inr (i + 1))
                           | Inr _ \<Rightarrow> (n', Inr i)))
                else (n, Inr i)
            | _ \<Rightarrow> (n, Inl AttributeError))"

lemma child_weight_le_sum:
  "x \<in> set cs \<Longrightarrow> child_weight x \<le> sum_list (map child_weight cs)"
  by (induction cs) auto

lemma sum_weight_take_le:
  "sum_list (map child_weight (take k cs)) \<le> sum_list (map child_weight cs)"
proof -
  have "sum_list (map child_weight (take k cs @ drop k cs))
        = sum_list (map child_weight (take k cs)) + sum_list (map child_weight (drop k cs))"
    unfolding map_append sum_list_append by (rule refl)
  then show ?thesis by simp
qed

lemma sum_weight_drop_le:
  "sum_list (map child_weight (drop k cs)) \<le> sum_list (map child_weight cs)"
proof -
  have "sum_list (map child_weight (take k cs @ drop k cs))
        = sum_list (map child_weight (take k cs)) + sum_list (map child_weight (drop k cs))"
    unfolding map_append sum_list_append by (rule refl)
  then show ?thesis by simp
qed

lemma set_list_insert: "set (list_insert xs k y) \<subseteq> insert y (set xs)"
  unfolding list_insert_def by (auto dest: in_set_takeD in_set_dropD)

lemma split_child_weight:
  assumes "split_child t n i = Inr n'" and "x \<in> set (children n')"
  shows "child_weight x < node_weight n"
proof -
  from assms(1) obtain c median where
    i: "i < length (children n)" and c: "children n ! i = CNode c"
    and n': "children n' =
       list_insert ((children n)[i := CNode (BTreeNode (slice_to (keys c) (t - 1))
                      (if is_leaf c then children c else slice_to (children c) t) (is_leaf c))])
         (i + 1)
         (CNode (BTreeNode (slice_from (keys c) t)
                   (if is_leaf c then [] else slice_from (children c) t) (is_leaf c)))"
    by (auto simp: split_child_def Let_def split: if_splits child.splits sum.splits)
  have cn: "node_weight c \<le> sum_list (map child_weight (children n))"
    using child_weight_le_sum [of "CNode c" "children n"] i c
    by (metis child_weight.simps(3) nth_mem)
  have old: "y \<in> set (children n) \<Longrightarrow> child_weight y \<le> sum_list (map child_weight (children n))" for y
    by (rule child_weight_le_sum)
  from assms(2) have "x \<in> set ((children n)[i := CNode (BTreeNode (slice_to (keys c) (t - 1))
                      (if is_leaf c then children c else slice_to (children c) t) (is_leaf c))])
        \<or> x = CNode (BTreeNode (slice_from (keys c) t)
                   (if is_leaf c then [] else slice_from (children c) t) (is_leaf c))"
    unfolding n' using set_list_insert by fastforce
  then have "x \<in> set (children n)
        \<or> x = CNode (BTreeNode (slice_to (keys c) (t - 1))
                      (if is_leaf c then children c else slice_to (children c) t) (is_leaf c))
        \<or> x = CNode (BTreeNode (slice_from (keys c) t)
                   (if is_leaf c then [] else slice_from (children c) t) (is_leaf c))"
    using set_update_subset_insert by fastforce
  moreover have "child_weight (CNode (BTreeNode (slice_to (keys c) (t - 1))
                      (if is_leaf c then children c else slice_to (children c) t) (is_leaf c)))
                 \<le> node_weight c"
    using sum_weight_take_le [of _ "children c"] by (cases c) (simp add: slice_to_def)
  moreover have "child_weight (CNode (BTreeNode (slice_from (keys c) t)
                   (if is_leaf c then [] else slice_from (children c) t) (is_leaf c)))
                 \<le> node_weight c"
    using sum_weight_drop_le [of _ "children c"] by (cases c) (simp add: slice_from_def)
  ultimately have "child_weight x \<le> sum_list (map child_weight (children n))"
    using cn old by auto
  then show ?thesis by (cases n) simp
qed

lemma choose_child_weight:
  assumes "choose_child t n key = (n', Inr i)" and "i < length (children n')"
    and "children n' ! i = CNode c"
  shows "node_weight c < node_weight n"
proof -
  have mem: "CNode c \<in> set (children n')"
    using assms(2,3) by (metis nth_mem)
  have "n' = n \<or> (\<exists>j. split_child t n j = Inr n')"
    using assms(1)
    by (auto simp: choose_child_def split: sum.splits if_splits child.splits Order.splits)
  then show ?thesis
  proof
    assume "n' = n"
    then have "child_weight (CNode c) \<le> sum_list (map child_weight (children n))"
      using mem child_weight_le_sum by blast
    then show ?thesis by (cases n) simp
  next
    assume "\<exists>j. split_child t n j = Inr n'"
    then obtain j where "split_child t n j = Inr n'" ..
    from split_child_weight [OF this mem] show ?thesis by simp
  qed
qed

text \<open>\<^verbatim>\<open>_insert_non_full\<close>: the node as the call leaves it, and the exception if it raised.\<close>

function insert_non_full :: "int \<Rightarrow> node \<Rightarrow> val \<Rightarrow> val \<Rightarrow> node \<times> py_error option" where
  "insert_non_full t n key v =
     (if is_leaf n then insert_leaf n key v
      else case choose_child t n key of
          (n', Inl e) \<Rightarrow> (n', Some e)
        | (n', Inr i) \<Rightarrow>
            if length (children n') \<le> i then (n', Some IndexError)
            else case children n' ! i of
                CNode c \<Rightarrow>
                  (case insert_non_full t c key v of
                     (c', err) \<Rightarrow>
                       (BTreeNode (keys n') ((children n')[i := CNode c']) (is_leaf n'), err))
              | _ \<Rightarrow> (n', Some AttributeError))"
  by pat_completeness auto
termination
proof (relation "measure (\<lambda>(t, n, key, v). node_weight n)")
  show "wf (measure (\<lambda>(t, n, key, v). node_weight n))" by simp
next
  fix t n key v n' i c and r :: "py_error + nat"
  assume "(n', r) = choose_child t n key" and "r = Inr i"
    and "\<not> length (children n') \<le> i" and "children n' ! i = CNode c"
  then have "node_weight c < node_weight n"
    using choose_child_weight [of t n key n' i c] by simp
  then show "((t, c, key, v), (t, n, key, v)) \<in> measure (\<lambda>(t, n, key, v). node_weight n)"
    by simp
qed

definition BTreeIndex_insert :: "BTreeIndex \<Rightarrow> val \<Rightarrow> val \<Rightarrow> BTreeIndex \<times> py_error option" where
  "BTreeIndex_insert ix key v =
     (if int (length (keys (root ix))) = 2 * order ix - 1
      then (case split_child (order ix) (BTreeNode [] [CNode (root ix)] False) 0 of
              Inl e \<Rightarrow> (ix, Some e)
            | Inr new_root \<Rightarrow>
                (case insert_non_full (order ix) new_root key v of
                   (r, err) \<Rightarrow> (ix\<lparr>root := r\<rparr>, err)))
      else (case insert_non_full (order ix) (root ix) key v of
              (r, err) \<Rightarrow> (ix\<lparr>root := r\<rparr>, err)))"

text \<open>The scanning loop shared by \<^verbatim>\<open>_search\<close> and \<^verbatim>\<open>_delete\<close>, and the test after it.\<close>

fun scan_gt :: "val \<Rightarrow> val list \<Rightarrow> nat \<Rightarrow> py_error + nat" where
  "scan_gt key [] i = Inr i"
| "scan_gt key (k # ks) i =
     (case compare_keys key k of
        Inl e \<Rightarrow> Inl e
      | Inr GT \<Rightarrow> scan_gt key ks (Suc i)
      | Inr _ \<Rightarrow> Inr i)"

definition key_found :: "val \<Rightarrow> val list \<Rightarrow> nat \<Rightarrow> py_error + bool" where
  "key_found key ks i =
     (if i < length ks
      then (case compare_keys key (ks ! i) of Inl e \<Rightarrow> Inl e | Inr ord \<Rightarrow> Inr (ord = EQ))
      else Inr False)"

text \<open>
  \<^verbatim>\<open>_search\<close> returns whatever object sits at \<^verbatim>\<open>children[i]\<close> beside the matching key
  (\<^verbatim>\<open>[]\<close> for \<^verbatim>\<open>None\<close>): in an internal node that object is a child node.
\<close>

function search_node :: "node \<Rightarrow> val \<Rightarrow> py_error + child" where
  "search_node n key =
     (case scan_gt key (keys n) 0 of
        Inl e \<Rightarrow> Inl e
      | Inr i \<Rightarrow>
          (case key_found key (keys n) i of
             Inl e \<Rightarrow> Inl e
           | Inr True \<Rightarrow>
               if length (children n) \<le> i then Inl IndexError
               else Inr (if children n ! i = CNone then CBucket [] else children n ! i)
           | Inr False \<Rightarrow>
               if is_leaf n then Inr (CBucket [])
               else if length (children n) \<le> i then Inl IndexError
               else (case children n ! i of
                       CNode c \<Rightarrow> search_node c key
                     | _ \<Rightarrow> Inl AttributeError)))"
  by pat_completeness auto
termination
proof (relation "measure (\<lambda>(n, key). node_weight n)")
  show "wf (measure (\<lambda>(n, key). node_weight n))" by simp
next
  fix n :: node and key i b c
  assume "\<not> length (children n) \<le> i" and "children n ! i = CNode c"
  then have "CNode c \<in> set (children n)" by (metis not_le nth_mem)
  then have "child_weight (CNode c) \<le> sum_list (map child_weight (children n))"
    by (rule child_weight_le_sum)
  then show "((c, key), (n, key)) \<in> measure (\<lambda>(n, key). node_weight n)"
    by (cases n) simp
qed

definition BTreeIndex_search :: "BTreeIndex \<Rightarrow> val \<Rightarrow> py_error + child" where
  "BTreeIndex_search ix key = search_node (root ix) key"

definition list_del :: "'a list \<Rightarrow> nat \<Rightarrow> 'a list" where
  "list_del xs i = take i xs @ drop (Suc i) xs"

text \<open>\<^verbatim>\<open>_delete\<close>: the node as the call leaves it, and the boolean or the exception.\<close>

function delete_node :: "node \<Rightarrow> val \<Rightarrow> node \<times> (py_error + bool)" where
  "delete_node n key =
     (case scan_gt key (keys n) 0 of
        Inl e \<Rightarrow> (n, Inl e)
      | Inr i \<Rightarrow>
          (case key_found key (keys n) i of
             Inl e \<Rightarrow> (n, Inl e)
           | Inr True \<Rightarrow>
               if is_leaf n
               then (if length (children n) \<le> i
                     then (BTreeNode (list_del (keys n) i) (children n) (is_leaf n), Inl IndexError)
                     else (BTreeNode (list_del (keys n) i) (list_del (children n) i) (is_leaf n),
                           Inr True))
               else (if length (children n) \<le> i then (n, Inl IndexError)
                     else (BTreeNode (keys n) ((children n)[i := CNone]) (is_leaf n), Inr True))
           | Inr False \<Rightarrow>
               if is_leaf n then (n, Inr False)
               else if length (children n) \<le> i then (n, Inl IndexError)
               else (case children n ! i of
                       CNode c \<Rightarrow>
                         (case delete_node c key of
                            (c', res) \<Rightarrow>
                              (BTreeNode (keys n) ((children n)[i := CNode c']) (is_leaf n), res))
                     | _ \<Rightarrow> (n, Inl AttributeError))))"
  by pat_completeness auto
termination
proof (relation "measure (\<lambda>(n, key). node_weight n)")
  show "wf (measure (\<lambda>(n, key). node_weight n))" by simp
next
  fix n :: node and key i b c
  assume "\<not> length (children n) \<le> i" and "children n ! i = CNode c"
  then have "CNode c \<in> set (children n)" by (metis not_le nth_mem)
  then have "child_weight (CNode c) \<le> sum_list (map child_weight (children n))"
    by (rule child_weight_le_sum)
  then show "((c, key), (n, key)) \<in> measure (\<lambda>(n, key). node_weight n)"
    by (cases n) simp
qed

definition BTreeIndex_delete :: "BTreeIndex \<Rightarrow> val \<Rightarrow> BTreeIndex \<times> (py_error + bool)" where
  "BTreeIndex_delete ix key =
     (case delete_node (root ix) key of (r, res) \<Rightarrow> (ix\<lparr>root := r\<rparr>, res))"

section \<open>IndexManager (engine/index.py)\<close>

record IndexManager =
  indexes :: "(string \<times> BTreeIndex) list"
  table_indexes :: "(string \<times> string list) list"

definition IndexManager_init :: IndexManager where
  "IndexManager_init = \<lparr>indexes = [], table_indexes = []\<rparr>"

definition get_table_indexes :: "IndexManager \<Rightarrow> string \<Rightarrow> string list" where
  "get_table_indexes im table_name =
     (case map_of (table_indexes im) table_name of None \<Rightarrow> [] | Some names \<Rightarrow> names)"

text \<open>The new index is always \<^verbatim>\<open>BTreeIndex()\<close>, of order 4; \<^verbatim>\<open>column_name\<close> is not stored.\<close>

definition create_index ::
  "IndexManager \<Rightarrow> string \<Rightarrow> string \<Rightarrow> string \<Rightarrow> py_error + IndexManager" where
  "create_index im index_name table_name column_name =
     (if dict_has (indexes im) index_name then Inl (ValueError (IndexExists index_name))
      else Inr \<lparr>indexes = dict_set (indexes im) index_name (BTreeIndex_init 4),
                table_indexes =
                  dict_set (table_indexes im) table_name
                    (get_table_indexes im table_name @ [index_name])\<rparr>)"

text \<open>
  The loops of \<^verbatim>\<open>insert_into_indexes\<close> and \<^verbatim>\<open>delete_from_indexes\<close> over the index names
  of the table. The key is the first value of the row dictionary, whatever the column
  of the index. A raise leaves the indexes already visited as updated.
\<close>

fun insert_loop ::
  "(string \<times> BTreeIndex) list \<Rightarrow> string list \<Rightarrow> row \<Rightarrow> val
     \<Rightarrow> (string \<times> BTreeIndex) list \<times> py_error option" where
  "insert_loop idx [] row_data row_id = (idx, None)"
| "insert_loop idx (index_name # names) row_data row_id =
     (case map_of idx index_name of
        None \<Rightarrow> insert_loop idx names row_data row_id
      | Some index \<Rightarrow>
          (case row_data of
             [] \<Rightarrow> insert_loop idx names row_data row_id
           | (c, first_key) # _ \<Rightarrow>
               (case BTreeIndex_insert index first_key row_id of
                  (index', Some e) \<Rightarrow> (dict_set idx index_name index', Some e)
                | (index', None) \<Rightarrow>
                    insert_loop (dict_set idx index_name index') names row_data row_id)))"

definition insert_into_indexes ::
  "IndexManager \<Rightarrow> string \<Rightarrow> row \<Rightarrow> val \<Rightarrow> IndexManager \<times> py_error option" where
  "insert_into_indexes im table_name row_data row_id =
     (case insert_loop (indexes im) (get_table_indexes im table_name) row_data row_id of
        (idx, err) \<Rightarrow> (im\<lparr>indexes := idx\<rparr>, err))"

fun delete_loop ::
  "(string \<times> BTreeIndex) list \<Rightarrow> string list \<Rightarrow> row
     \<Rightarrow> (string \<times> BTreeIndex) list \<times> py_error option" where
  "delete_loop idx [] row_data = (idx, None)"
| "delete_loop idx (index_name # names) row_data =
     (case map_of idx index_name of
        None \<Rightarrow> delete_loop idx names row_data
      | Some index \<Rightarrow>
          (case row_data of
             [] \<Rightarrow> delete_loop idx names row_data
           | (c, first_key) # _ \<Rightarrow>
               (case BTreeIndex_delete index first_key of
                  (index', Inl e) \<Rightarrow> (dict_set idx index_name index', Some e)
                | (index', Inr _) \<Rightarrow>
                    delete_loop (dict_set idx index_name index') names row_data)))"

definition delete_from_indexes ::
  "IndexManager \<Rightarrow> string \<Rightarrow> row \<Rightarrow> val \<Rightarrow> IndexManager \<times> py_error option" where
  "delete_from_indexes im table_name row_data row_id =
     (case delete_loop (indexes im) (get_table_indexes im table_name) row_data of
        (idx, err) \<Rightarrow> (im\<lparr>indexes := idx\<rparr>, err))"

definition search_index :: "IndexManager \<Rightarrow> string \<Rightarrow> val \<Rightarrow> py_error + child" where
  "search_index im index_name key =
     (case map_of (indexes im) index_name of
        Some index \<Rightarrow> BTreeIndex_search index key
      | None \<Rightarrow> Inr (CBucket []))"

section \<open>StorageEngine (engine/storage.py)\<close>

text \<open>
  The data directory holds, per table, the JSON document of its schema and the JSON
  document of its rows. \<^verbatim>\<open>json.dump\<close> followed by \<^verbatim>\<open>json.load\<close> returns an equal object for
  what \<^verbatim>\<open>save_to_disk\<close> writes (string-keyed dictionaries, lists, strings, ints, finite
  floats, booleans, \<^verbatim>\<open>None\<close>), so a file is modelled by the object it stores. The
  directory is a pair of dictionaries from file name to document, one for the documents
  of the shape of a schema and one for the lists of rows; \<^verbatim>\<open>None\<close> is a directory that
  does not exist.
\<close>

type_synonym column_data = "string \<times> string \<times> string list"

type_synonym schema_data = "string \<times> column_data list \<times> string option"

record directory =
  schema_files :: "(string \<times> schema_data) list"
  rows_files :: "(string \<times> row list) list"

record StorageEngine =
  data_dir :: "directory option"
  tables :: "(string \<times> Table) list"

fun DataType_value :: "DataType \<Rightarrow> string" where
  "DataType_value INT_type = ''INT''"
| "DataType_value TEXT_type = ''TEXT''"
| "DataType_value FLOAT_type = ''FLOAT''"
| "DataType_value BOOL_type = ''BOOL''"

definition DataType_of :: "string \<Rightarrow> py_error + DataType" where
  "DataType_of s =
     (if s = ''INT'' then Inr INT_type
      else if s = ''TEXT'' then Inr TEXT_type
      else if s = ''FLOAT'' then Inr FLOAT_type
      else if s = ''BOOL'' then Inr BOOL_type
      else Inl (ValueError (NotAnEnumValue s)))"

fun ConstraintType_value :: "ConstraintType \<Rightarrow> string" where
  "ConstraintType_value PRIMARY_KEY = ''PRIMARY_KEY''"
| "ConstraintType_value UNIQUE = ''UNIQUE''"
| "ConstraintType_value NOT_NULL = ''NOT_NULL''"

definition ConstraintType_of :: "string \<Rightarrow> py_error + ConstraintType" where
  "ConstraintType_of s =
     (if s = ''PRIMARY_KEY'' then Inr PRIMARY_KEY
      else if s = ''UNIQUE'' then Inr UNIQUE
      else if s = ''NOT_NULL'' then Inr NOT_NULL
      else Inl (ValueError (NotAnEnumValue s)))"

definition column_to_data :: "Column \<Rightarrow> column_data" where
  "column_to_data col =
     (Column.name col, DataType_value (data_type col), map ConstraintType_value (constraints col))"

definition schema_to_data :: "TableSchema \<Rightarrow> schema_data" where
  "schema_to_data s = (TableSchema.name s, map column_to_data (columns s), primary_key s)"

text \<open>
  The loop of \<^verbatim>\<open>save_to_disk\<close> over the tables. Reading \<^verbatim>\<open>table.schema.primary_key\<close> raises
  AttributeError on a parser \<^verbatim>\<open>Table\<close> that never got the attribute, before anything of
  that table is written; the files of the tables before it stay written.
\<close>

fun save_tables :: "(string \<times> Table) list \<Rightarrow> directory \<Rightarrow> directory \<times> py_error option" where
  "save_tables [] d = (d, None)"
| "save_tables ((table_name, t) # ts) d =
     (if cls (schema t) = ParserTable \<and> primary_key (schema t) = None then (d, Some AttributeError)
      else save_tables ts
             \<lparr>schema_files =
                dict_set (schema_files d) (table_name @ ''_schema.json'')
                  (schema_to_data (schema t)),
              rows_files = dict_set (rows_files d) (table_name @ ''_rows.json'') (rows t)\<rparr>)"

definition save_to_disk :: "StorageEngine \<Rightarrow> StorageEngine \<times> py_error option" where
  "save_to_disk s =
     (case save_tables (tables s)
             (case data_dir s of
                None \<Rightarrow> \<lparr>schema_files = [], rows_files = []\<rparr>
              | Some d \<Rightarrow> d) of
        (d, err) \<Rightarrow> (s\<lparr>data_dir := Some d\<rparr>, err))"

text \<open>\<^verbatim>\<open>str.endswith\<close>, and \<^verbatim>\<open>str.replace(old, '')\<close> for a non-empty \<^verbatim>\<open>old\<close>: every
  occurrence, left to right, is removed.\<close>

definition endswith :: "string \<Rightarrow> string \<Rightarrow> bool" where
  "endswith s suffix = (length suffix \<le> length s \<and> drop (length s - length suffix) s = suffix)"

function remove_all :: "string \<Rightarrow> string \<Rightarrow> string" where
  "remove_all old s =
     (if s = [] \<or> old = [] then s
      else if take (length old) s = old then remove_all old (drop (length old) s)
      else hd s # remove_all old (tl s))"
  by pat_completeness auto
termination
  by (relation "measure (\<lambda>(old, s). length s)") auto

fun load_constraints :: "string list \<Rightarrow> py_error + ConstraintType list" where
  "load_constraints [] = Inr []"
| "load_constraints (c # cs) =
     (case ConstraintType_of c of
        Inl e \<Rightarrow> Inl e
      | Inr ct \<Rightarrow> (case load_constraints cs of Inl e \<Rightarrow> Inl e | Inr cts \<Rightarrow> Inr (ct # cts)))"

fun load_columns :: "column_data list \<Rightarrow> py_error + Column list" where
  "load_columns [] = Inr []"
| "load_columns ((n, dt, cs) # col_datas) =
     (case DataType_of dt of
        Inl e \<Rightarrow> Inl e
      | Inr t \<Rightarrow>
          (case load_constraints cs of
             Inl e \<Rightarrow> Inl e
           | Inr cts \<Rightarrow>
               (case load_columns col_datas of
                  Inl e \<Rightarrow> Inl e
                | Inr cols \<Rightarrow>
                    Inr (\<lparr>Column.name = n, data_type = t, constraints = cts\<rparr> # cols))))"

text \<open>
  The loop over the stored rows that restores \<^verbatim>\<open>next_row_id\<close>. \<^verbatim>\<open>row_id >= next_row_id\<close>
  raises TypeError for a string or \<^verbatim>\<open>None\<close>. For a float row id not below the counter
  Python goes on with a float counter; float addition is outside the model, which stops
  there with the marker \<open>FloatCounter\<close> (not a Python exception).
\<close>

datatype load_error = Raised py_error | FloatCounter

fun load_rows :: "row list \<Rightarrow> int \<Rightarrow> load_error + int" where
  "load_rows [] nxt = Inr nxt"
| "load_rows (row_data # rs) nxt =
     (if dict_has row_data ''row_id''
      then (case py_ge (Row_get row_data ''row_id'') (VInt nxt) of
              Inl e \<Rightarrow> Inl (Raised e)
            | Inr False \<Rightarrow> load_rows rs nxt
            | Inr True \<Rightarrow>
                (case Row_get row_data ''row_id'' of
                   VInt i \<Rightarrow> load_rows rs (i + 1)
                 | VBool b \<Rightarrow> load_rows rs ((if b then 1 else 0) + 1)
                 | _ \<Rightarrow> Inl FloatCounter))
      else load_rows rs nxt)"

definition load_table :: "directory \<Rightarrow> string \<Rightarrow> schema_data \<Rightarrow> load_error + Table" where
  "load_table d table_name sd =
     (case sd of (n, col_datas, pk) \<Rightarrow>
        (case load_columns col_datas of
           Inl e \<Rightarrow> Inl (Raised e)
         | Inr cols \<Rightarrow>
             let s = \<lparr>cls = StorageTableSchema, name = n, columns = cols, primary_key = pk\<rparr>
             in (case map_of (rows_files d) (table_name @ ''_rows.json'') of
                   None \<Rightarrow> Inr (Table_init s)
                 | Some rows_data \<Rightarrow>
                     (case load_rows rows_data 1 of
                        Inl e \<Rightarrow> Inl e
                      | Inr nxt \<Rightarrow> Inr \<lparr>schema = s, rows = rows_data, next_row_id = nxt\<rparr>))))"

text \<open>The loop over \<^verbatim>\<open>os.listdir\<close>; the files are visited in the order of the dictionary.\<close>

definition load_file ::
  "directory \<Rightarrow> string \<Rightarrow> schema_data \<Rightarrow> (string \<times> Table) list
     \<Rightarrow> load_error + (string \<times> Table) list" where
  "load_file d filename sd ts =
     (if endswith filename ''_schema.json''
      then (let table_name = remove_all ''_schema.json'' filename
            in case load_table d table_name sd of
                 Inl e \<Rightarrow> Inl e
               | Inr t \<Rightarrow> Inr (dict_set ts table_name t))
      else Inr ts)"

fun load_files ::
  "directory \<Rightarrow> (string \<times> schema_data) list \<Rightarrow> (string \<times> Table) list
     \<Rightarrow> (string \<times> Table) list \<times> load_error option" where
  "load_files d [] ts = (ts, None)"
| "load_files d (file # files) ts =
     (case load_file d (fst file) (snd file) ts of
        Inl e \<Rightarrow> (ts, Some e)
      | Inr ts' \<Rightarrow> load_files d files ts')"

definition load_from_disk :: "StorageEngine \<Rightarrow> StorageEngine \<times> load_error option" where
  "load_from_disk s =
     (case data_dir s of
        None \<Rightarrow> (s, None)
      | Some d \<Rightarrow>
          (case load_files d (schema_files d) (tables s) of
             (ts, err) \<Rightarrow> (s\<lparr>tables := ts\<rparr>, err)))"

definition StorageEngine_init :: "directory option \<Rightarrow> StorageEngine \<times> load_error option" where
  "StorageEngine_init dir = load_from_disk \<lparr>data_dir = dir, tables = []\<rparr>"

fun first_primary_key :: "Column list \<Rightarrow> string option" where
  "first_primary_key [] = None"
| "first_primary_key (col # cols) =
     (if PRIMARY_KEY \<in> set (constraints col) then Some (Column.name col)
      else first_primary_key cols)"

text \<open>
  \<^verbatim>\<open>create_table\<close> registers the table and then saves; when the save raises, the table
  stays registered.
\<close>

definition create_table :: "StorageEngine \<Rightarrow> TableSchema \<Rightarrow> StorageEngine \<times> py_error option" where
  "create_table s sch =
     (if dict_has (tables s) (TableSchema.name sch)
      then (s, Some (ValueError (TableExists (TableSchema.name sch))))
      else let sch' = (case first_primary_key (columns sch) of
                         None \<Rightarrow> sch
                       | Some c \<Rightarrow> sch\<lparr>primary_key := Some c\<rparr>)
           in save_to_disk
                (s\<lparr>tables := dict_set (tables s) (TableSchema.name sch) (Table_init sch')\<rparr>))"

definition get_table :: "StorageEngine \<Rightarrow> string \<Rightarrow> Table option" where
  "get_table s table_name = map_of (tables s) table_name"

section \<open>QueryExecutor (engine/executor.py) and Database (engine/database.py)\<close>

text \<open>
  \<^verbatim>\<open>QueryExecutor._matches_condition\<close> and \<^verbatim>\<open>Database._matches_condition\<close> have the same
  body; unlike the one of \<^verbatim>\<open>Table\<close>, an operator outside the six yields False.
\<close>

definition QueryExecutor_matches_condition :: "row \<Rightarrow> Condition \<Rightarrow> py_error + bool" where
  "QueryExecutor_matches_condition r c =
     (let left_val = operand_value r (left c); right_val = operand_value r (right c)
      in if operator c = ''='' then Inr (py_eq left_val right_val)
         else if operator c = ''!='' then Inr (\<not> py_eq left_val right_val)
         else if operator c = ''>'' then py_gt left_val right_val
         else if operator c = ''<'' then py_lt left_val right_val
         else if operator c = ''>='' then py_ge left_val right_val
         else if operator c = ''<='' then py_le left_val right_val
         else Inr False)"

definition Database_matches_condition :: "row \<Rightarrow> Condition \<Rightarrow> py_error + bool" where
  "Database_matches_condition r c =
     (let left_val = operand_value r (left c); right_val = operand_value r (right c)
      in if operator c = ''='' then Inr (py_eq left_val right_val)
         else if operator c = ''!='' then Inr (\<not> py_eq left_val right_val)
         else if operator c = ''>'' then py_gt left_val right_val
         else if operator c = ''<'' then py_lt left_val right_val
         else if operator c = ''>='' then py_ge left_val right_val
         else if operator c = ''<='' then py_le left_val right_val
         else Inr False)"

datatype JoinClause = JoinClause (table: string) (left_column: string) (right_column: string)

text \<open>
  \<^verbatim>\<open>_apply_join\<close>, the same in both classes. The inner loop stops at the first right row
  whose key equals the left key; the merge copies the left row and then stores every
  right item but \<^verbatim>\<open>row_id\<close> under the right table's name, an underscore and its key.
\<close>

fun first_match :: "val \<Rightarrow> string \<Rightarrow> row list \<Rightarrow> row option" where
  "first_match left_key rc [] = None"
| "first_match left_key rc (right_row # rs) =
     (if py_eq left_key (Row_get right_row rc) then Some right_row
      else first_match left_key rc rs)"

definition merge_rows :: "row \<Rightarrow> row \<Rightarrow> string \<Rightarrow> row" where
  "merge_rows left_row right_row table_name =
     fold (\<lambda>(key, v) merged_data.
             if key \<noteq> ''row_id'' then dict_set merged_data (table_name @ ''_'' @ key) v
             else merged_data)
       right_row left_row"

fun join_loop :: "row list \<Rightarrow> Table \<Rightarrow> JoinClause \<Rightarrow> row list \<Rightarrow> row list" where
  "join_loop [] join_table jc joined_rows = joined_rows"
| "join_loop (left_row # rs) join_table jc joined_rows =
     (let left_key = Row_get left_row (left_column jc)
      in if left_key \<noteq> VNone
         then (case first_match left_key (right_column jc) (Table_select join_table None) of
                 Some right_row \<Rightarrow>
                   join_loop rs join_table jc
                     (joined_rows
                      @ [merge_rows left_row right_row (TableSchema.name (schema join_table))])
               | None \<Rightarrow> join_loop rs join_table jc joined_rows)
         else join_loop rs join_table jc joined_rows)"


definition Database_apply_join :: "row list \<Rightarrow> Table \<Rightarrow> JoinClause \<Rightarrow> row list" where
  "Database_apply_join rs join_table jc = join_loop rs join_table jc []"

record Database =
  storage :: StorageEngine
  index_manager :: IndexManager

datatype query =
    SelectQuery "string list" string "Condition option" "JoinClause option"
  | InsertQuery string "val list"
  | UpdateQuery string "(string \<times> val) list" "Condition option"
  | DeleteQuery string "Condition option"
  | CreateTableQuery string "Column list"
  | CreateIndexQuery string string string

text \<open>The list comprehension \<^verbatim>\<open>[row for row in rows if self._matches_condition(row, w)]\<close>.\<close>

fun where_rows :: "Condition \<Rightarrow> row list \<Rightarrow> py_error + row list" where
  "where_rows c [] = Inr []"
| "where_rows c (r # rs) =
     (case Database_matches_condition r c of
        Inl e \<Rightarrow> Inl e
      | Inr m \<Rightarrow>
          (case where_rows c rs of
             Inl e \<Rightarrow> Inl e
           | Inr rs' \<Rightarrow> Inr (if m then r # rs' else rs')))"

definition matching_rows :: "Table \<Rightarrow> Condition option \<Rightarrow> py_error + row list" where
  "matching_rows t w =
     (case w of None \<Rightarrow> Inr (Table_select t None) | Some c \<Rightarrow> where_rows c (Table_select t None))"

definition execute_select ::
  "Database \<Rightarrow> string list \<Rightarrow> string \<Rightarrow> Condition option \<Rightarrow> JoinClause option
     \<Rightarrow> py_error + row list" where
  "execute_select db cols table_name w j =
     (case get_table (storage db) table_name of
        None \<Rightarrow> Inl (ValueError (NoSuchTable table_name))
      | Some t \<Rightarrow>
          (case (case w of None \<Rightarrow> Inr (Table_select t (Some cols))
                 | Some c \<Rightarrow> where_rows c (Table_select t (Some cols))) of
             Inl e \<Rightarrow> Inl e
           | Inr rs \<Rightarrow>
               let rs' = (case j of
                            None \<Rightarrow> rs
                          | Some jc \<Rightarrow>
                              (case get_table (storage db) (table jc) of
                                 None \<Rightarrow> rs
                               | Some join_table \<Rightarrow> Database_apply_join rs join_table jc))
               in Inr (map (\<lambda>r. if ''*'' \<in> set cols then r else project_row r cols) rs')))"







definition set_table :: "Database \<Rightarrow> string \<Rightarrow> Table \<Rightarrow> Database" where
  "set_table db table_name t =
     db\<lparr>storage := (storage db)\<lparr>tables := dict_set (tables (storage db)) table_name t\<rparr>\<rparr>"

text \<open>
  \<^verbatim>\<open>_execute_insert\<close>. The row dictionary is built from the values by position, the
  table assigns \<^verbatim>\<open>row_id\<close> into that same dictionary, and the dictionary is then handed to
  the index manager. Every step that raises leaves the effects of the steps before it.
\<close>

definition execute_insert ::
  "Database \<Rightarrow> string \<Rightarrow> val list \<Rightarrow> Database \<times> (py_error + row list)" where
  "execute_insert db table_name vals =
     (case get_table (storage db) table_name of
        None \<Rightarrow> (db, Inl (ValueError (NoSuchTable table_name)))
      | Some t \<Rightarrow>
          let row_data =
                fold (\<lambda>(col_name, v) d. dict_set d col_name v)
                  (zip (map Column.name (columns (schema t))) vals) []
          in (case Table_insert t row_data of
                (t', row_data', Inl e) \<Rightarrow> (set_table db table_name t', Inl e)
              | (t', row_data', Inr row_id) \<Rightarrow>
                  (case insert_into_indexes (index_manager db) table_name row_data' row_id of
                     (im, Some e) \<Rightarrow> ((set_table db table_name t')\<lparr>index_manager := im\<rparr>, Inl e)
                   | (im, None) \<Rightarrow>
                       (let db' = (set_table db table_name t')\<lparr>index_manager := im\<rparr>
                        in case save_to_disk (storage db') of
                             (st, Some e) \<Rightarrow> (db'\<lparr>storage := st\<rparr>, Inl e)
                           | (st, None) \<Rightarrow>
                               (db'\<lparr>storage := st\<rparr>,
                                Inr [[(''affected_rows'', VInt 1), (''row_id'', row_id)]])))))"

fun delete_rows_from_indexes ::
  "IndexManager \<Rightarrow> string \<Rightarrow> row list \<Rightarrow> IndexManager \<times> py_error option" where
  "delete_rows_from_indexes im table_name [] = (im, None)"
| "delete_rows_from_indexes im table_name (r # rs) =
     (case delete_from_indexes im table_name r (Row_get r ''row_id'') of
        (im', Some e) \<Rightarrow> (im', Some e)
      | (im', None) \<Rightarrow> delete_rows_from_indexes im' table_name rs)"

fun insert_rows_into_indexes ::
  "IndexManager \<Rightarrow> string \<Rightarrow> row list \<Rightarrow> IndexManager \<times> py_error option" where
  "insert_rows_into_indexes im table_name [] = (im, None)"
| "insert_rows_into_indexes im table_name (r # rs) =
     (case insert_into_indexes im table_name r (Row_get r ''row_id'') of
        (im', Some e) \<Rightarrow> (im', Some e)
      | (im', None) \<Rightarrow> insert_rows_into_indexes im' table_name rs)"

text \<open>
  \<^verbatim>\<open>_execute_update\<close>: the rows matching before the update leave the indexes, the table
  is updated, the rows matching after the update enter the indexes, the tables are saved.
\<close>

definition execute_update ::
  "Database \<Rightarrow> string \<Rightarrow> (string \<times> val) list \<Rightarrow> Condition option
     \<Rightarrow> Database \<times> (py_error + row list)" where
  "execute_update db table_name assignment_list w =
     (case get_table (storage db) table_name of
        None \<Rightarrow> (db, Inl (ValueError (NoSuchTable table_name)))
      | Some t \<Rightarrow>
          let assignments = fold (\<lambda>(col, v) d. dict_set d col v) assignment_list []
          in (case matching_rows t w of
                Inl e \<Rightarrow> (db, Inl e)
              | Inr rows_to_update \<Rightarrow>
                  (case delete_rows_from_indexes (index_manager db) table_name rows_to_update of
                     (im1, Some e) \<Rightarrow> (db\<lparr>index_manager := im1\<rparr>, Inl e)
                   | (im1, None) \<Rightarrow>
                       (case Table_update t assignments w of
                          (t', Inl e) \<Rightarrow>
                            ((set_table db table_name t')\<lparr>index_manager := im1\<rparr>, Inl e)
                        | (t', Inr affected_rows) \<Rightarrow>
                            (let db1 = (set_table db table_name t')\<lparr>index_manager := im1\<rparr>
                             in case matching_rows t' w of
                                  Inl e \<Rightarrow> (db1, Inl e)
                                | Inr updated_rows \<Rightarrow>
                                    (case insert_rows_into_indexes im1 table_name updated_rows of
                                       (im2, Some e) \<Rightarrow> (db1\<lparr>index_manager := im2\<rparr>, Inl e)
                                     | (im2, None) \<Rightarrow>
                                         (case save_to_disk (storage db1) of
                                            (st, Some e) \<Rightarrow>
                                              (db1\<lparr>index_manager := im2, storage := st\<rparr>, Inl e)
                                          | (st, None) \<Rightarrow>
                                              (db1\<lparr>index_manager := im2, storage := st\<rparr>,
                                               Inr [[(''affected_rows'',
                                                      VInt affected_rows)]]))))))))"

definition execute_delete ::
  "Database \<Rightarrow> string \<Rightarrow> Condition option \<Rightarrow> Database \<times> (py_error + row list)" where
  "execute_delete db table_name w =
     (case get_table (storage db) table_name of
        None \<Rightarrow> (db, Inl (ValueError (NoSuchTable table_name)))
      | Some t \<Rightarrow>
          (case matching_rows t w of
             Inl e \<Rightarrow> (db, Inl e)
           | Inr rows_to_delete \<Rightarrow>
               (case delete_rows_from_indexes (index_manager db) table_name rows_to_delete of
                  (im1, Some e) \<Rightarrow> (db\<lparr>index_manager := im1\<rparr>, Inl e)
                | (im1, None) \<Rightarrow>
                    (case Table_delete t w of
                       (t', Inl e) \<Rightarrow> ((set_table db table_name t')\<lparr>index_manager := im1\<rparr>, Inl e)
                     | (t', Inr affected_rows) \<Rightarrow>
                         (let db1 = (set_table db table_name t')\<lparr>index_manager := im1\<rparr>
                          in case save_to_disk (storage db1) of
                               (st, Some e) \<Rightarrow> (db1\<lparr>storage := st\<rparr>, Inl e)
                             | (st, None) \<Rightarrow>
                                 (db1\<lparr>storage := st\<rparr>,
                                  Inr [[(''affected_rows'', VInt affected_rows)]]))))))"

definition execute_create_index ::
  "Database \<Rightarrow> string \<Rightarrow> string \<Rightarrow> string \<Rightarrow> Database \<times> (py_error + row list)" where
  "execute_create_index db index_name table_name column_name =
     (case create_index (index_manager db) index_name table_name column_name of
        Inl e \<Rightarrow> (db, Inl e)
      | Inr im \<Rightarrow>
          (db\<lparr>index_manager := im\<rparr>,
           Inr [[(''message'',
                  VStr (''Index '' @ [CHR 0x27] @ index_name @ [CHR 0x27]
                        @ '' created successfully''))]]))"

text \<open>
  \<^verbatim>\<open>_execute_create_table\<close> hands \<^verbatim>\<open>query.table\<close>, the parser's \<^verbatim>\<open>Table(name, columns)\<close>, to
  \<^verbatim>\<open>StorageEngine.create_table\<close>.
\<close>

definition execute_create_table ::
  "Database \<Rightarrow> string \<Rightarrow> Column list \<Rightarrow> Database \<times> (py_error + row list)" where
  "execute_create_table db table_name cols =
     (case create_table (storage db)
             \<lparr>cls = ParserTable, name = table_name, columns = cols, primary_key = None\<rparr> of
        (st, Some e) \<Rightarrow> (db\<lparr>storage := st\<rparr>, Inl e)
      | (st, None) \<Rightarrow>
          (db\<lparr>storage := st\<rparr>,
           Inr [[(''message'',
                  VStr (''Table '' @ [CHR 0x27] @ table_name @ [CHR 0x27]
                        @ '' created successfully''))]]))"

text \<open>\<^verbatim>\<open>Database.execute\<close> on a parsed statement; a SELECT leaves the database as it is.\<close>

fun execute :: "Database \<Rightarrow> query \<Rightarrow> Database \<times> (py_error + row list)" where
  "execute db (SelectQuery cols table_name w j) = (db, execute_select db cols table_name w j)"
| "execute db (InsertQuery table_name vals) = execute_insert db table_name vals"
| "execute db (UpdateQuery table_name assignment_list w) =
     execute_update db table_name assignment_list w"
| "execute db (DeleteQuery table_name w) = execute_delete db table_name w"
| "execute db (CreateTableQuery table_name cols) = execute_create_table db table_name cols"
| "execute db (CreateIndexQuery index_name table_name column_name) =
     execute_create_index db index_name table_name column_name"

text \<open>A run of statements: it stops at the first one that raises.\<close>

fun execute_all :: "Database \<Rightarrow> query list \<Rightarrow> Database \<times> py_error option" where
  "execute_all db [] = (db, None)"
| "execute_all db (q # qs) =
     (case execute db q of
        (db', Inl e) \<Rightarrow> (db', Some e)
      | (db', Inr _) \<Rightarrow> execute_all db' qs)"

section \<open>Error classes and scenario data\<close>

text \<open>
  Every failure of the engine is a Python exception; the three that report a broken
  column constraint (a missing NOT NULL value, a value of the wrong type, a duplicate
  value of a unique column) are the constraint violations.
\<close>

fun constraint_violation :: "py_error \<Rightarrow> bool" where
  "constraint_violation (ValueError (CannotBeNull c)) = True"
| "constraint_violation (ValueError (InvalidType c)) = True"
| "constraint_violation (ValueError (DuplicateValue c)) = True"
| "constraint_violation e = False"

definition table_rows :: "Database \<Rightarrow> string \<Rightarrow> row list" where
  "table_rows db table_name =
     (case get_table (storage db) table_name of None \<Rightarrow> [] | Some t \<Rightarrow> rows t)"

text \<open>
  \<^verbatim>\<open>users(id INT PRIMARY KEY, name TEXT NOT NULL)\<close>: the schema without and with its primary
  key set, and the database as a start on the directory of the created table finds it.
\<close>

definition users_decl :: TableSchema where
  "users_decl =
     \<lparr>cls = StorageTableSchema, name = ''users'',
      columns = [\<lparr>Column.name = ''id'', data_type = INT_type, constraints = [PRIMARY_KEY]\<rparr>,
                 \<lparr>Column.name = ''name'', data_type = TEXT_type, constraints = [NOT_NULL]\<rparr>],
      primary_key = None\<rparr>"

definition users_schema :: TableSchema where
  "users_schema = users_decl\<lparr>primary_key := Some ''id''\<rparr>"

definition users_db :: Database where
  "users_db =
     \<lparr>storage =
        \<lparr>data_dir =
           Some \<lparr>schema_files = [(''users_schema.json'', schema_to_data users_schema)],
                 rows_files = [(''users_rows.json'', [])]\<rparr>,
         tables = [(''users'', Table_init users_schema)]\<rparr>,
      index_manager = IndexManager_init\<rparr>"

text \<open>A database started on a data directory that does not exist yet.\<close>

definition fresh_db :: Database where
  "fresh_db = \<lparr>storage = \<lparr>data_dir = None, tables = []\<rparr>, index_manager = IndexManager_init\<rparr>"

definition users_one_row :: Table where
  "users_one_row =
     \<lparr>schema = users_schema,
      rows = [[(''id'', VInt 1), (''name'', VStr ''a''), (''row_id'', VInt 1)]],
      next_row_id = 2\<rparr>"

section \<open>Vocabulary of the properties\<close>

text \<open>
  Two values can be ordered by Python when both are numbers (int, float, bool) or both
  are strings.
\<close>

fun comparable :: "val \<Rightarrow> val \<Rightarrow> bool" where
  "comparable (VStr s) (VStr t) = True"
| "comparable a b = (case (num_of a, num_of b) of (Some x, Some y) \<Rightarrow> True | _ \<Rightarrow> False)"

definition order_operators :: "string list" where
  "order_operators = [''>'', ''<'', ''>='', ''<='']"

text \<open>
  For \<^verbatim>\<open>Table.update\<close>: whether a row satisfies the predicate, the row as the statement
  leaves it, and the exception the row makes the loop raise, if any (from the predicate,
  or from the validation of the row after the assignments).
\<close>

definition satisfies :: "Condition option \<Rightarrow> row \<Rightarrow> bool" where
  "satisfies w r = (case w of None \<Rightarrow> True | Some c \<Rightarrow> Table_matches_condition r c = Inr True)"

definition touch :: "(string \<times> val) list \<Rightarrow> Condition option \<Rightarrow> row \<Rightarrow> row" where
  "touch assignments w r = (if satisfies w r then apply_assignments r assignments else r)"

definition row_raises ::
  "TableSchema \<Rightarrow> (string \<times> val) list \<Rightarrow> Condition option \<Rightarrow> row \<Rightarrow> py_error option" where
  "row_raises s assignments w r =
     (case (case w of None \<Rightarrow> Inr True | Some c \<Rightarrow> Table_matches_condition r c) of
        Inl e \<Rightarrow> Some e
      | Inr False \<Rightarrow> None
      | Inr True \<Rightarrow>
          (case validate_row s (apply_assignments r assignments) of
             Inl e \<Rightarrow> Some e
           | Inr _ \<Rightarrow> None))"




text \<open>A table one of whose stored rows lacks its NOT NULL column (as a rows file can hold).\<close>

definition users_two_rows :: Table where
  "users_two_rows =
     \<lparr>schema = users_schema,
      rows = [[(''id'', VInt 1), (''name'', VStr ''a''), (''row_id'', VInt 1)],
              [(''id'', VInt 2), (''row_id'', VInt 2)]],
      next_row_id = 3\<rparr>"

text \<open>\<^verbatim>\<open>items(id INT)\<close>, empty, with no index yet.\<close>

definition items_db :: Database where
  "items_db =
     \<lparr>storage =
        \<lparr>data_dir = None,
         tables =
           [(''items'',
             Table_init
               \<lparr>cls = StorageTableSchema, name = ''items'',
                columns = [\<lparr>Column.name = ''id'', data_type = INT_type, constraints = []\<rparr>],
                primary_key = None\<rparr>)]\<rparr>,
      index_manager = IndexManager_init\<rparr>"









section \<open>Dictionaries and validation: basic facts\<close>

lemma map_of_dict_set: "map_of (dict_set d k v) k' = (if k' = k then Some v else map_of d k')"
  by (induction d) auto

lemma dict_has_dict_set: "dict_has (dict_set d k v) k' \<longleftrightarrow> k' = k \<or> dict_has d k'"
  by (simp add: dict_has_def map_of_dict_set)

lemma Row_get_dict_set: "Row_get (dict_set d k v) k' = (if k' = k then v else Row_get d k')"
  by (simp add: Row_get_def map_of_dict_set)

lemma scan_existing_iff:
  "scan_existing c v rs \<longleftrightarrow> (\<exists>e\<in>set rs. dict_has e c \<and> py_eq (Row_get e c) v)"
  by (induction rs) auto

lemma check_unique_hit:
  "col \<in> set cols \<Longrightarrow> UNIQUE \<in> set (constraints col) \<or> PRIMARY_KEY \<in> set (constraints col)
   \<Longrightarrow> dict_has new_row (Column.name col)
   \<Longrightarrow> scan_existing (Column.name col) (Row_get new_row (Column.name col)) rs
   \<Longrightarrow> \<exists>c. check_unique_constraints cols rs new_row = Some (ValueError (DuplicateValue c))"
  by (induction cols) auto


lemma check_required_error:
  "check_required cols r = Some e \<Longrightarrow> \<exists>c. e = ValueError (CannotBeNull c)"
  by (induction cols) (auto split: if_splits)

lemma check_types_error:
  "check_types cols r = Some e \<Longrightarrow> \<exists>c. e = ValueError (InvalidType c)"
  by (induction r) (auto split: if_splits option.splits)

lemma validate_row_error:
  "validate_row s r = Inl e \<Longrightarrow>
     (if cls s = ParserTable then e = AttributeError
      else (\<exists>c. e = ValueError (CannotBeNull c)) \<or> (\<exists>c. e = ValueError (InvalidType c)))"
  by (auto simp: validate_row_def split: option.splits if_splits
           dest: check_required_error check_types_error)

lemma assign_row_id_frame:
  "assign_row_id t r = (t1, r1) \<Longrightarrow> rows t1 = rows t \<and> schema t1 = schema t"
  by (auto simp: assign_row_id_def split: if_splits)

lemma assign_row_id_keeps:
  "assign_row_id t r = (t1, r1) \<Longrightarrow> dict_has r c \<Longrightarrow>
     dict_has r1 c \<and> Row_get r1 c = Row_get r c"
  by (auto simp: assign_row_id_def dict_has_dict_set Row_get_dict_set split: if_splits)

lemma Table_insert_duplicate:
  assumes col: "col \<in> set (columns (schema t))"
    and uniq: "PRIMARY_KEY \<in> set (constraints col) \<or> UNIQUE \<in> set (constraints col)"
    and ex: "existing \<in> set (rows t)"
    and has: "dict_has existing (Column.name col)" "dict_has r (Column.name col)"
    and eq: "py_eq (Row_get existing (Column.name col)) (Row_get r (Column.name col))"
  shows "\<exists>t' r' e. Table_insert t r = (t', r', Inl e) \<and> rows t' = rows t
           \<and> (if cls (schema t) = ParserTable then e = AttributeError
               else constraint_violation e)"
proof (cases "validate_row (schema t) r")
  case (Inl e)
  from validate_row_error [OF this]
  have "if cls (schema t) = ParserTable then e = AttributeError else constraint_violation e"
    by (auto split: if_splits)
  with Inl show ?thesis by (simp add: Table_insert_def)
next
  case (Inr b)
  obtain t1 r1 where a: "assign_row_id t r = (t1, r1)" by (cases "assign_row_id t r")
  note fr = assign_row_id_frame [OF a] and kp = assign_row_id_keeps [OF a has(2)]
  have "scan_existing (Column.name col) (Row_get r1 (Column.name col)) (rows t1)"
    unfolding scan_existing_iff using ex has(1) eq fr kp by auto
  with col uniq kp fr obtain c where
    "check_unique_constraints (columns (schema t1)) (rows t1) r1
       = Some (ValueError (DuplicateValue c))"
    using check_unique_hit [of col "columns (schema t1)" r1 "rows t1"] by auto
  moreover from Inr have "cls (schema t) \<noteq> ParserTable"
    by (auto simp: validate_row_def split: if_splits)
  ultimately show ?thesis using Inr a fr
    by (simp add: Table_insert_def)
qed

section \<open>Rejected inserts\<close>

text \<open>
  Claim C4 (the code departs from it in the scenario). Whatever the table, inserting a
  row whose value in a PRIMARY KEY or UNIQUE column equals (Python \<^verbatim>\<open>==\<close>) the value a
  stored row holds there fails and leaves the stored rows unchanged; the failure is a
  constraint violation when the schema of the table is a \<^verbatim>\<open>TableSchema\<close>. But on a
  new directory, after \<^verbatim>\<open>CREATE TABLE users(id INT PRIMARY KEY, name TEXT NOT NULL)\<close>, which
  completes, \<^verbatim>\<open>INSERT (1, 'a')\<close> does not succeed: the schema of the new table is the
  parser's \<^verbatim>\<open>Table\<close>, \<^verbatim>\<open>Table.insert\<close> calls its \<^verbatim>\<open>validate_row\<close>, and AttributeError is raised;
  the table stays empty. Only a database started afterwards on that directory, where
  \<^verbatim>\<open>load_from_disk\<close> builds a \<^verbatim>\<open>TableSchema\<close>, behaves as the scenario says: \<^verbatim>\<open>INSERT (1, 'a')\<close>
  succeeds with row id 1, \<^verbatim>\<open>INSERT (1, 'b')\<close> fails with the duplicate-value error, and the
  table holds the one row.
\<close>

theorem duplicate_key_insert_rejected:
  "(\<forall>t r col existing.
      col \<in> set (columns (schema t))
      \<and> (PRIMARY_KEY \<in> set (constraints col) \<or> UNIQUE \<in> set (constraints col))
      \<and> existing \<in> set (rows t)
      \<and> dict_has existing (Column.name col) \<and> dict_has r (Column.name col)
      \<and> py_eq (Row_get existing (Column.name col)) (Row_get r (Column.name col))
      \<longrightarrow> (\<exists>t' r' e. Table_insert t r = (t', r', Inl e) \<and> rows t' = rows t
                \<and> (if cls (schema t) = ParserTable then e = AttributeError
                    else constraint_violation e)))
   \<and> (case execute fresh_db (CreateTableQuery ''users'' (columns users_decl)) of
        (db0, res0) \<Rightarrow>
          res0 = Inr [[(''message'',
                        VStr (''Table '' @ [CHR 0x27] @ ''users'' @ [CHR 0x27]
                              @ '' created successfully''))]]
          \<and> (case execute db0 (InsertQuery ''users'' [VInt 1, VStr ''a'']) of
               (db1, res1) \<Rightarrow> res1 = Inl AttributeError \<and> table_rows db1 ''users'' = [])
          \<and> StorageEngine_init (data_dir (storage db0)) = (storage users_db, None))
   \<and> (case execute users_db (InsertQuery ''users'' [VInt 1, VStr ''a'']) of
        (db1, res1) \<Rightarrow>
          res1 = Inr [[(''affected_rows'', VInt 1), (''row_id'', VInt 1)]]
          \<and> (case execute db1 (InsertQuery ''users'' [VInt 1, VStr ''b'']) of
               (db2, res2) \<Rightarrow>
                 res2 = Inl (ValueError (DuplicateValue ''id''))
                 \<and> table_rows db2 ''users''
                     = [[(''id'', VInt 1), (''name'', VStr ''a''), (''row_id'', VInt 1)]]))"
proof (intro conjI allI impI)
  fix t :: Table and r :: row and col :: Column and existing :: row
  assume "col \<in> set (columns (schema t))
      \<and> (PRIMARY_KEY \<in> set (constraints col) \<or> UNIQUE \<in> set (constraints col))
      \<and> existing \<in> set (rows t)
      \<and> dict_has existing (Column.name col) \<and> dict_has r (Column.name col)
      \<and> py_eq (Row_get existing (Column.name col)) (Row_get r (Column.name col))"
  then show "\<exists>t' r' e. Table_insert t r = (t', r', Inl e) \<and> rows t' = rows t
                \<and> (if cls (schema t) = ParserTable then e = AttributeError
                    else constraint_violation e)"
    using Table_insert_duplicate [of col t existing r] by blast
next
  show "case execute fresh_db (CreateTableQuery ''users'' (columns users_decl)) of
        (db0, res0) \<Rightarrow>
          res0 = Inr [[(''message'',
                        VStr (''Table '' @ [CHR 0x27] @ ''users'' @ [CHR 0x27]
                              @ '' created successfully''))]]
          \<and> (case execute db0 (InsertQuery ''users'' [VInt 1, VStr ''a'']) of
               (db1, res1) \<Rightarrow> res1 = Inl AttributeError \<and> table_rows db1 ''users'' = [])
          \<and> StorageEngine_init (data_dir (storage db0)) = (storage users_db, None)"
    by code_simp
next
  show "case execute users_db (InsertQuery ''users'' [VInt 1, VStr ''a'']) of
        (db1, res1) \<Rightarrow>
          res1 = Inr [[(''affected_rows'', VInt 1), (''row_id'', VInt 1)]]
          \<and> (case execute db1 (InsertQuery ''users'' [VInt 1, VStr ''b'']) of
               (db2, res2) \<Rightarrow>
                 res2 = Inl (ValueError (DuplicateValue ''id''))
                 \<and> table_rows db2 ''users''
                     = [[(''id'', VInt 1), (''name'', VStr ''a''), (''row_id'', VInt 1)]])"
    by code_simp
qed

theorem duplicate_key_insert_rejected_witness:
  "\<exists>t' r' e. Table_insert users_one_row [(''id'', VInt 1), (''name'', VStr ''b'')] = (t', r', Inl e)
      \<and> rows t' = rows users_one_row \<and> constraint_violation e"
proof -
  have "\<lparr>Column.name = ''id'', data_type = INT_type, constraints = [PRIMARY_KEY]\<rparr>
          \<in> set (columns (schema users_one_row))"
    by (simp add: users_one_row_def users_schema_def users_decl_def)
  moreover have "[(''id'', VInt 1), (''name'', VStr ''a''), (''row_id'', VInt 1)]
          \<in> set (rows users_one_row)"
    by (simp add: users_one_row_def)
  moreover have "cls (schema users_one_row) \<noteq> ParserTable"
    by (simp add: users_one_row_def users_schema_def users_decl_def)
  ultimately show ?thesis
    using duplicate_key_insert_rejected
      [THEN conjunct1, rule_format,
       of "\<lparr>Column.name = ''id'', data_type = INT_type, constraints = [PRIMARY_KEY]\<rparr>"
          users_one_row "[(''id'', VInt 1), (''name'', VStr ''a''), (''row_id'', VInt 1)]"
          "[(''id'', VInt 1), (''name'', VStr ''b'')]"]
    by (simp add: dict_has_def Row_get_def)
qed



section \<open>Predicates\<close>

lemma py_lt_error: "py_lt a b = Inl e \<longleftrightarrow> \<not> comparable a b \<and> e = TypeError"
  by (cases a; cases b) auto

lemma py_le_error: "py_le a b = Inl e \<longleftrightarrow> \<not> comparable a b \<and> e = TypeError"
  by (cases a; cases b) auto

lemma comparable_sym: "comparable a b = comparable b a"
  by (cases a; cases b) auto

lemma py_gt_error: "py_gt a b = Inl e \<longleftrightarrow> \<not> comparable a b \<and> e = TypeError"
  unfolding py_gt_def py_lt_error using comparable_sym by blast

lemma py_ge_error: "py_ge a b = Inl e \<longleftrightarrow> \<not> comparable a b \<and> e = TypeError"
  unfolding py_ge_def py_le_error using comparable_sym by blast

lemmas cmp_error = py_lt_error py_le_error py_gt_error py_ge_error

text \<open>
  Claim C9 says that predicate evaluation fails whenever a column reference does not
  resolve against the row or the two values have incomparable tags, for each of the six
  operators. The code does not: \<^verbatim>\<open>Row.get\<close> gives \<^verbatim>\<open>None\<close> for a missing column, and \<^verbatim>\<open>==\<close>
  and \<^verbatim>\<open>!=\<close> are defined between any two values. Here the column \<^verbatim>\<open>y\<close> is not in the
  row, and a string is compared with an int, and a boolean comes back.
\<close>

theorem predicate_unresolved_column_counterexample:
  "\<not> dict_has [(''x'', VInt 1)] ''y''
   \<and> QueryExecutor_matches_condition [(''x'', VInt 1)]
        \<lparr>left = ColumnRef ''y'', operator = ''='', right = Literal (VInt 1)\<rparr> = Inr False
   \<and> Table_matches_condition [(''x'', VInt 1)]
        \<lparr>left = ColumnRef ''y'', operator = ''!='', right = Literal (VInt 1)\<rparr> = Inr True
   \<and> \<not> comparable (VStr ''a'') (VInt 1)
   \<and> QueryExecutor_matches_condition [(''x'', VStr ''a'')]
        \<lparr>left = ColumnRef ''x'', operator = ''='', right = Literal (VInt 1)\<rparr> = Inr False"
  by (simp add: dict_has_def QueryExecutor_matches_condition_def Table_matches_condition_def
        Row_get_def)

text \<open>
  Claim C9 as amended. In each of the three copies of \<^verbatim>\<open>_matches_condition\<close>, the
  evaluation raises exactly when the operator is one of \<^verbatim>\<open>>\<close>, \<^verbatim>\<open><\<close>, \<^verbatim>\<open>>=\<close>, \<^verbatim>\<open><=\<close> and the two
  operand values (\<^verbatim>\<open>None\<close> for a column the row does not have) are neither both numbers
  nor both strings, and what it raises is TypeError. With \<^verbatim>\<open>=\<close> and \<^verbatim>\<open>!=\<close> it never fails
  and returns the outcome of \<^verbatim>\<open>==\<close>, or its negation.
\<close>

theorem predicate_raises_iff:
  "(QueryExecutor_matches_condition r c = Inl e \<longleftrightarrow>
      operator c \<in> set order_operators
      \<and> \<not> comparable (operand_value r (left c)) (operand_value r (right c)) \<and> e = TypeError)
   \<and> (Database_matches_condition r c = Inl e \<longleftrightarrow>
      operator c \<in> set order_operators
      \<and> \<not> comparable (operand_value r (left c)) (operand_value r (right c)) \<and> e = TypeError)
   \<and> (Table_matches_condition r c = Inl e \<longleftrightarrow>
      operator c \<in> set order_operators
      \<and> \<not> comparable (operand_value r (left c)) (operand_value r (right c)) \<and> e = TypeError)
   \<and> (operator c = ''='' \<longrightarrow>
        QueryExecutor_matches_condition r c
          = Inr (py_eq (operand_value r (left c)) (operand_value r (right c)))
        \<and> Database_matches_condition r c
          = Inr (py_eq (operand_value r (left c)) (operand_value r (right c)))
        \<and> Table_matches_condition r c
          = Inr (py_eq (operand_value r (left c)) (operand_value r (right c))))
   \<and> (operator c = ''!='' \<longrightarrow>
        QueryExecutor_matches_condition r c
          = Inr (\<not> py_eq (operand_value r (left c)) (operand_value r (right c)))
        \<and> Database_matches_condition r c
          = Inr (\<not> py_eq (operand_value r (left c)) (operand_value r (right c)))
        \<and> Table_matches_condition r c
          = Inr (\<not> py_eq (operand_value r (left c)) (operand_value r (right c))))"
  by (simp add: QueryExecutor_matches_condition_def Database_matches_condition_def
        Table_matches_condition_def Let_def order_operators_def cmp_error)

theorem predicate_raises_iff_witness:
  "QueryExecutor_matches_condition [(''x'', VInt 1)]
     \<lparr>left = ColumnRef ''y'', operator = ''>'', right = Literal (VInt 1)\<rparr> = Inl TypeError
   \<and> Table_matches_condition [(''x'', VInt 1)]
     \<lparr>left = ColumnRef ''x'', operator = ''='', right = Literal (VBool True)\<rparr> = Inr True
   \<and> Database_matches_condition [(''x'', VInt 1)]
     \<lparr>left = ColumnRef ''x'', operator = ''!='', right = Literal (VStr ''1'')\<rparr> = Inr True"
  using predicate_raises_iff
          [of "[(''x'', VInt 1)]"
              "\<lparr>left = ColumnRef ''y'', operator = ''>'', right = Literal (VInt 1)\<rparr>" TypeError]
        predicate_raises_iff
          [of "[(''x'', VInt 1)]"
              "\<lparr>left = ColumnRef ''x'', operator = ''='', right = Literal (VBool True)\<rparr>" TypeError]
        predicate_raises_iff
          [of "[(''x'', VInt 1)]"
              "\<lparr>left = ColumnRef ''x'', operator = ''!='', right = Literal (VStr ''1'')\<rparr>" TypeError]
  by (simp add: order_operators_def Row_get_def)

section \<open>Update without rollback\<close>

lemma update_rows_ok:
  "list_all (\<lambda>r. row_raises s a w r = None) rs \<Longrightarrow>
     update_rows s a w rs n
       = (map (touch a w) rs, Inr (n + int (length (filter (satisfies w) rs))))"
proof (induction rs arbitrary: n)
  case Nil
  then show ?case by simp
next
  case (Cons r rs)
  then show ?case
    by (cases w)
       (auto simp: row_raises_def touch_def satisfies_def Let_def split: sum.splits bool.splits)
qed

lemma update_rows_raise:
  "list_all (\<lambda>r. row_raises s a w r = None) pre \<Longrightarrow> row_raises s a w r = Some e \<Longrightarrow>
     update_rows s a w (pre @ r # post) n
       = (map (touch a w) pre @ touch a w r # post, Inl e)"
proof (induction pre arbitrary: n)
  case Nil
  then show ?case
    by (cases w)
       (auto simp: row_raises_def touch_def satisfies_def Let_def split: sum.splits bool.splits)
next
  case (Cons p pre)
  then show ?case
    by (cases w)
       (auto simp: row_raises_def touch_def satisfies_def Let_def split: sum.splits bool.splits)
qed

text \<open>
  Claim C7 ends with: when no validation fails, update returns the count of rows
  touched. The predicate is evaluated by the same loop and can raise as well: here the
  only row passes validation after the assignment, and \<^verbatim>\<open>name > 1\<close> compares a string
  with an int, so that the update raises TypeError and returns no count.
\<close>

theorem update_predicate_error_counterexample:
  "validate_row (schema users_one_row)
     (apply_assignments [(''id'', VInt 1), (''name'', VStr ''a''), (''row_id'', VInt 1)]
        [(''id'', VInt 5)]) = Inr True
   \<and> Table_update users_one_row [(''id'', VInt 5)]
        (Some \<lparr>left = ColumnRef ''name'', operator = ''>'', right = Literal (VInt 1)\<rparr>)
       = (users_one_row, Inl TypeError)"
  by (simp add: Table_update_def users_one_row_def users_schema_def users_decl_def
        Table_matches_condition_def Row_get_def py_gt_def validate_row_def apply_assignments_def
        dict_has_def)

text \<open>
  Claim C7 as amended. \<^verbatim>\<open>Table.update\<close> goes through the rows in table order; to each row
  that satisfies the predicate (every row when there is none) it applies the assignments
  and then validates the row. When no row makes the loop raise, every satisfying row
  is mutated, the others are untouched, and the count of satisfying rows is returned.
  When a row makes it raise, by its validation or by the predicate, the error
  propagates, the rows before it stay as the statement mutated them, the row itself
  stays mutated if it satisfied the predicate, and the rows after it are untouched.
\<close>

theorem update_without_rollback:
  "(list_all (\<lambda>r. row_raises (schema t) a w r = None) (rows t) \<longrightarrow>
      Table_update t a w
        = (t\<lparr>rows := map (touch a w) (rows t)\<rparr>,
           Inr (int (length (filter (satisfies w) (rows t))))))
   \<and> (rows t = pre @ r # post
       \<and> list_all (\<lambda>r. row_raises (schema t) a w r = None) pre
       \<and> row_raises (schema t) a w r = Some e \<longrightarrow>
      Table_update t a w = (t\<lparr>rows := map (touch a w) pre @ touch a w r # post\<rparr>, Inl e))"
  by (simp add: Table_update_def update_rows_ok update_rows_raise)

theorem update_without_rollback_witness:
  "Table_update users_one_row [(''name'', VStr ''z'')] None
     = (users_one_row\<lparr>rows := [[(''id'', VInt 1), (''name'', VStr ''z''), (''row_id'', VInt 1)]]\<rparr>,
        Inr 1)
   \<and> Table_update users_two_rows [(''id'', VInt 9)] None
     = (users_two_rows\<lparr>rows := [[(''id'', VInt 9), (''name'', VStr ''a''), (''row_id'', VInt 1)],
                                 [(''id'', VInt 9), (''row_id'', VInt 2)]]\<rparr>,
        Inl (ValueError (CannotBeNull ''name'')))"
proof -
  have r1: "row_raises users_schema [(''name'', VStr ''z'')] None
              [(''id'', VInt 1), (''name'', VStr ''a''), (''row_id'', VInt 1)] = None"
    by (simp add: row_raises_def validate_row_def apply_assignments_def users_schema_def
          users_decl_def dict_has_def)
  have r2: "row_raises users_schema [(''id'', VInt 9)] None
              [(''id'', VInt 1), (''name'', VStr ''a''), (''row_id'', VInt 1)] = None"
    by (simp add: row_raises_def validate_row_def apply_assignments_def users_schema_def
          users_decl_def dict_has_def)
  have r3: "row_raises users_schema [(''id'', VInt 9)] None [(''id'', VInt 2), (''row_id'', VInt 2)]
              = Some (ValueError (CannotBeNull ''name''))"
    by (simp add: row_raises_def validate_row_def apply_assignments_def users_schema_def
          users_decl_def dict_has_def)
  show ?thesis
    using update_without_rollback
            [THEN conjunct1, of users_one_row "[(''name'', VStr ''z'')]" None]
          update_without_rollback
            [THEN conjunct2,
             of users_two_rows "[[(''id'', VInt 1), (''name'', VStr ''a''), (''row_id'', VInt 1)]]"
                "[(''id'', VInt 2), (''row_id'', VInt 2)]" "[]" "[(''id'', VInt 9)]" None
                "ValueError (CannotBeNull ''name'')"]
          r1 r2 r3
    by (simp add: users_one_row_def users_two_rows_def touch_def satisfies_def
          apply_assignments_def)
qed

section \<open>Single-match inner join\<close>









section \<open>The B-tree index on its failing inputs\<close>

text \<open>
  Claim C2 (the code departs from it). An index of order 4 receives \<^verbatim>\<open>insert(1, 10)\<close> and
  then \<^verbatim>\<open>insert(1, 20)\<close>. Neither call raises. The leaf then holds the key 1 twice, each
  with a bucket of its own, and \<^verbatim>\<open>search(1)\<close> returns the first bucket only: row id 20,
  inserted under key 1 and never deleted, is not in the answer. With \<^verbatim>\<open>insert(2, 10)\<close>
  followed by \<^verbatim>\<open>insert(1, 20)\<close> the new key 1 takes over the bucket of key 2 and row id 20
  is stored nowhere.
\<close>

theorem btree_duplicate_key_second_entry:
  "(case BTreeIndex_insert (BTreeIndex_init 4) (VInt 1) (VInt 10) of
      (ix1, e1) \<Rightarrow>
        e1 = None
        \<and> (case BTreeIndex_insert ix1 (VInt 1) (VInt 20) of
             (ix2, e2) \<Rightarrow>
               e2 = None
               \<and> root ix2 = BTreeNode [VInt 1, VInt 1] [CBucket [VInt 10], CBucket [VInt 20]] True
               \<and> BTreeIndex_search ix2 (VInt 1) = Inr (CBucket [VInt 10])))
   \<and> (case BTreeIndex_insert (BTreeIndex_init 4) (VInt 2) (VInt 10) of
        (ix1, e1) \<Rightarrow>
          e1 = None
          \<and> (case BTreeIndex_insert ix1 (VInt 1) (VInt 20) of
               (ix2, e2) \<Rightarrow>
                 e2 = None
                 \<and> root ix2 = BTreeNode [VInt 1, VInt 2] [CBucket [VInt 10], CBucket [VInt 10]] True
                 \<and> BTreeIndex_search ix2 (VInt 1) = Inr (CBucket [VInt 10])))"
  by code_simp

text \<open>
  Claim C3 (the code departs from it). After \<^verbatim>\<open>insert(1, 10)\<close> and \<^verbatim>\<open>insert(1, 20)\<close> on an
  index of order 4 the keys of the root are 1, 1: the second is not greater than the
  first, so the keys of the node are not strictly ascending.
\<close>

theorem btree_keys_not_strictly_ascending:
  "(case BTreeIndex_insert (fst (BTreeIndex_insert (BTreeIndex_init 4) (VInt 1) (VInt 10)))
          (VInt 1) (VInt 20) of
      (ix, e) \<Rightarrow>
        e = None \<and> keys (root ix) = [VInt 1, VInt 1]
        \<and> py_lt (keys (root ix) ! 0) (keys (root ix) ! 1) = Inr False
        \<and> compare_keys (keys (root ix) ! 0) (keys (root ix) ! 1) = Inr EQ)"
  by code_simp

section \<open>Indexes after mutating statements\<close>

text \<open>
  Claim C1 (the code departs from it). On \<^verbatim>\<open>items(id INT)\<close> with an index created while
  the table is empty, \<^verbatim>\<open>INSERT (2)\<close> and \<^verbatim>\<open>INSERT (1)\<close> both complete. The table then holds
  the row with id 2 under row id 1 and the row with id 1 under row id 2, while the index
  answers row id 1 for key 1 and for key 2: the live row with id 1 is not in the index
  under its row id, and the entry for key 1 names a row whose key is 2. After
  \<^verbatim>\<open>INSERT (1)\<close> and \<^verbatim>\<open>UPDATE SET id = 5 WHERE id = 1\<close>, which both complete, the index is
  empty although the table holds a row.
\<close>

theorem index_inconsistent_after_statements:
  "(case execute_all items_db
           [CreateIndexQuery ''ix'' ''items'' ''id'',
            InsertQuery ''items'' [VInt 2], InsertQuery ''items'' [VInt 1]] of
      (db, err) \<Rightarrow>
        err = None
        \<and> table_rows db ''items''
            = [[(''id'', VInt 2), (''row_id'', VInt 1)], [(''id'', VInt 1), (''row_id'', VInt 2)]]
        \<and> search_index (index_manager db) ''ix'' (VInt 1) = Inr (CBucket [VInt 1])
        \<and> search_index (index_manager db) ''ix'' (VInt 2) = Inr (CBucket [VInt 1]))
   \<and> (case execute_all items_db
             [CreateIndexQuery ''ix'' ''items'' ''id'', InsertQuery ''items'' [VInt 1],
              UpdateQuery ''items'' [(''id'', VInt 5)]
                (Some \<lparr>left = ColumnRef ''id'', operator = ''='', right = Literal (VInt 1)\<rparr>)] of
        (db, err) \<Rightarrow>
          err = None
          \<and> table_rows db ''items'' = [[(''id'', VInt 5), (''row_id'', VInt 1)]]
          \<and> search_index (index_manager db) ''ix'' (VInt 5) = Inr (CBucket [])
          \<and> indexes (index_manager db) = [(''ix'', BTreeIndex_init 4)])"
  by code_simp

section \<open>Save and load\<close>





























section \<open>Row ids\<close>












end
